theory Spec2Isabelle
  imports Main "HOL-Library.FSet"
begin

section \<open>Python values and errors\<close>

text \<open>
  The methods of \<^verbatim>\<open>Set\<close> (src/aioriak/datatypes/set.py) receive arbitrary Python
  objects: \<^verbatim>\<open>add(5)\<close> is a call the code answers with a \<^verbatim>\<open>TypeError\<close>. The values
  modelled are \<^verbatim>\<open>None\<close>, integers, strings, lists and tuples. A string is a list of
  characters; iterating it yields its one-character strings. Lists are the unhashable
  values, a tuple is hashable when all its members are.
\<close>

datatype pyval =
    PNone
  | PInt int
  | PStr string
  | PList "pyval list"
  | PTuple "pyval list"

datatype error =
    TypeError string
  | ContextRequired

text \<open>\<^verbatim>\<open>isinstance(x, str)\<close>\<close>

fun is_str :: "pyval \<Rightarrow> bool" where
  "is_str (PStr w) = True"
| "is_str PNone = False"
| "is_str (PInt i) = False"
| "is_str (PList xs) = False"
| "is_str (PTuple xs) = False"

text \<open>\<^verbatim>\<open>isinstance(x, collections.abc.Iterable)\<close>\<close>

fun is_iterable :: "pyval \<Rightarrow> bool" where
  "is_iterable (PStr w) = True"
| "is_iterable (PList xs) = True"
| "is_iterable (PTuple xs) = True"
| "is_iterable PNone = False"
| "is_iterable (PInt i) = False"

text \<open>The elements a \<^verbatim>\<open>for\<close> loop over the value visits, in order.\<close>

fun py_iter :: "pyval \<Rightarrow> pyval list" where
  "py_iter (PStr w) = map (\<lambda>c. PStr [c]) w"
| "py_iter (PList xs) = xs"
| "py_iter (PTuple xs) = xs"
| "py_iter PNone = []"
| "py_iter (PInt i) = []"

fun hashable :: "pyval \<Rightarrow> bool" where
  "hashable PNone = True"
| "hashable (PInt i) = True"
| "hashable (PStr w) = True"
| "hashable (PList xs) = False"
| "hashable (PTuple xs) = list_all hashable xs"

fun type_name :: "pyval \<Rightarrow> string" where
  "type_name PNone = ''NoneType''"
| "type_name (PInt i) = ''int''"
| "type_name (PStr w) = ''str''"
| "type_name (PList xs) = ''list''"
| "type_name (PTuple xs) = ''tuple''"

text \<open>A type's name between apostrophes, as the interpreter's messages show it.\<close>

definition quoted :: "string \<Rightarrow> string" where
  "quoted n = CHR 0x27 # n @ [CHR 0x27]"

definition unhashable_error :: error where
  "unhashable_error = TypeError (''unhashable type: '' @ quoted ''list'')"

definition not_iterable_error :: "pyval \<Rightarrow> error" where
  "not_iterable_error v = TypeError (quoted (type_name v) @ '' object is not iterable'')"

section \<open>The base class\<close>

text \<open>
  \<^verbatim>\<open>Datatype\<close> (aioriak/datatypes/datatype.py) is not among the sources. Its state is
  the snapshot last confirmed by the store and the optional causal context.
\<close>

record datatype_state =
  snapshot :: "pyval fset"
  ctx :: "string option"

text \<open>
  Modelled from the spec: the \<^verbatim>\<open>value\<close> property of the base class, which "returns
  the current immutable snapshot (read-only view; never includes staged mutations)".
\<close>

definition value_of :: "'a datatype_state_scheme \<Rightarrow> pyval fset" where
  "value_of self = snapshot self"

text \<open>
  Modelled from the spec: \<^verbatim>\<open>_require_context\<close> of the base class, which "fails with a
  ContextRequired error if context is absent". The result is the exception raised, if
  any.
\<close>

definition require_context :: "'a datatype_state_scheme \<Rightarrow> error option" where
  "require_context self = (if ctx self = None then Some ContextRequired else None)"

section \<open>The set datatype\<close>

text \<open>
  \<^verbatim>\<open>Set\<close> adds the two staging containers \<^verbatim>\<open>_adds\<close> and \<^verbatim>\<open>_removes\<close>, both Python
  sets. The leading underscore of the source's names is dropped throughout.
\<close>

record set_state = datatype_state +
  adds :: "pyval fset"
  removes :: "pyval fset"

definition type_error_msg :: string where
  "type_error_msg = ''Sets can only be iterables of strings''"

definition post_init :: "'a datatype_state_scheme \<Rightarrow> set_state" where
  "post_init self =
     \<lparr>snapshot = snapshot self, ctx = ctx self, adds = {||}, removes = {||}\<rparr>"

definition default_value :: "pyval fset" where
  "default_value = {||}"

text \<open>
  Modelled from the spec: the constructor of the base class without arguments. An
  instance is "created with empty snapshot, no context, empty staging containers"; the
  snapshot is \<^verbatim>\<open>_default_value()\<close> and the staging containers are those of
  \<^verbatim>\<open>_post_init\<close>.
\<close>

definition new_Set :: set_state where
  "new_Set = post_init \<lparr>snapshot = default_value, ctx = None\<rparr>"

text \<open>
  A method that mutates the instance is a function from the state to the exception it
  raised, if any, and the state it left behind. A statement after a raising one does
  not run.
\<close>

type_synonym stmt = "set_state \<Rightarrow> error option \<times> set_state"

definition then_stmt :: "stmt \<Rightarrow> stmt \<Rightarrow> stmt" where
  "then_stmt f g self =
     (case f self of
        (None, self') \<Rightarrow> g self'
      | (Some e, self') \<Rightarrow> (Some e, self'))"

definition check_element :: "pyval \<Rightarrow> error option" where
  "check_element element =
     (if \<not> is_str element then Some (TypeError type_error_msg) else None)"

text \<open>\<^verbatim>\<open>s.add(element)\<close> of a built-in set: the element must be hashable.\<close>

definition py_set_add :: "pyval \<Rightarrow> pyval fset \<Rightarrow> error + pyval fset" where
  "py_set_add element s =
     (if hashable element then Inr (finsert element s) else Inl unhashable_error)"

definition adds_add :: "pyval \<Rightarrow> stmt" where
  "adds_add element self =
     (case py_set_add element (adds self) of
        Inl e \<Rightarrow> (Some e, self)
      | Inr s \<Rightarrow> (None, self\<lparr>adds := s\<rparr>))"

definition removes_add :: "pyval \<Rightarrow> stmt" where
  "removes_add element self =
     (case py_set_add element (removes self) of
        Inl e \<Rightarrow> (Some e, self)
      | Inr s \<Rightarrow> (None, self\<lparr>removes := s\<rparr>))"

definition add :: "pyval \<Rightarrow> stmt" where
  "add element =
     then_stmt (\<lambda>self. (check_element element, self))
       (adds_add element)"

definition discard :: "pyval \<Rightarrow> stmt" where
  "discard element =
     then_stmt (\<lambda>self. (check_element element, self))
       (then_stmt (\<lambda>self. (require_context self, self))
          (removes_add element))"

text \<open>
  \<^verbatim>\<open>list(s)\<close> of a built-in set yields its elements in an order the language leaves
  open. The order is the parameter \<open>py_list\<close>; \<open>lists_elements py_list s\<close> says that it
  behaves as \<^verbatim>\<open>list\<close> does on the set \<open>s\<close>: every element once.
\<close>

definition lists_elements :: "(pyval fset \<Rightarrow> pyval list) \<Rightarrow> pyval fset \<Rightarrow> bool" where
  "lists_elements py_list s = (fset_of_list (py_list s) = s \<and> distinct (py_list s))"

text \<open>The dictionary \<^verbatim>\<open>changes\<close> is a map from its keys to the lists stored.\<close>

definition to_op ::
  "(pyval fset \<Rightarrow> pyval list) \<Rightarrow> set_state \<Rightarrow> (string \<rightharpoonup> pyval list) option" where
  "to_op py_list self =
     (if adds self = {||} \<and> removes self = {||} then None
      else
        let changes = Map.empty;
            changes = (if adds self \<noteq> {||}
                       then changes(''adds'' \<mapsto> py_list (adds self)) else changes);
            changes = (if removes self \<noteq> {||}
                       then changes(''removes'' \<mapsto> py_list (removes self)) else changes)
        in Some changes)"

definition modified :: "set_state \<Rightarrow> bool" where
  "modified self = (fcard (removes self |\<union>| adds self) > 0)"

text \<open>
  \<^verbatim>\<open>element in self.value\<close> hashes the element first and raises for an unhashable one.
\<close>

definition contains :: "pyval \<Rightarrow> set_state \<Rightarrow> error + bool" where
  "contains element self =
     (if hashable element then Inr (element |\<in>| value_of self) else Inl unhashable_error)"

text \<open>The iterator is modelled by the list of elements it yields.\<close>

definition iter :: "(pyval fset \<Rightarrow> pyval list) \<Rightarrow> set_state \<Rightarrow> pyval list" where
  "iter py_list self = py_list (value_of self)"

definition len :: "set_state \<Rightarrow> nat" where
  "len self = fcard (value_of self)"

text \<open>\<^verbatim>\<open>frozenset(new_value)\<close>: the argument must be iterable, its elements hashable.\<close>

definition coerce_value :: "pyval \<Rightarrow> error + pyval fset" where
  "coerce_value new_value =
     (if \<not> is_iterable new_value then Inl (not_iterable_error new_value)
      else if \<not> list_all hashable (py_iter new_value) then Inl unhashable_error
      else Inr (fset_of_list (py_iter new_value)))"

text \<open>The loop of \<^verbatim>\<open>_check_type\<close> over the elements still to visit.\<close>

fun check_elements :: "pyval list \<Rightarrow> bool" where
  "check_elements [] = True"
| "check_elements (element # rest) =
     (if \<not> is_str element then False else check_elements rest)"

definition check_type :: "pyval \<Rightarrow> bool" where
  "check_type new_value =
     (if \<not> is_iterable new_value then False
      else check_elements (py_iter new_value))"

section \<open>Sequences of calls\<close>

text \<open>
  A caller that stages one mutation after the other, going on after a call that raised:
  \<open>run\<close> gives the state of the instance after all the calls.
\<close>

datatype call = Add pyval | Discard pyval

fun exec_call :: "call \<Rightarrow> stmt" where
  "exec_call (Add element) = add element"
| "exec_call (Discard element) = discard element"

fun run :: "call list \<Rightarrow> set_state \<Rightarrow> set_state" where
  "run [] self = self"
| "run (c # cs) self = run cs (snd (exec_call c self))"

fun is_Add :: "call \<Rightarrow> bool" where
  "is_Add (Add element) = True"
| "is_Add (Discard element) = False"

fun is_Discard :: "call \<Rightarrow> bool" where
  "is_Discard (Discard element) = True"
| "is_Discard (Add element) = False"

text \<open>The elements of a field of the delta; an absent field has none.\<close>

definition field_elements :: "(string \<rightharpoonup> pyval list) \<Rightarrow> string \<Rightarrow> pyval fset" where
  "field_elements changes k =
     (case changes k of None \<Rightarrow> {||} | Some xs \<Rightarrow> fset_of_list xs)"

section \<open>Example instances\<close>

text \<open>
  An instance with one staged addition and no context, an instance as it is after a
  fetch from the store (snapshot \<^verbatim>\<open>{'a'}\<close>, context \<^verbatim>\<open>"ctx1"\<close>), and two orders in
  which \<^verbatim>\<open>list\<close> may yield the elements of a set of the strings \<^verbatim>\<open>'a'\<close> and \<^verbatim>\<open>'b'\<close>.
\<close>

definition staged_a :: set_state where
  "staged_a = \<lparr>snapshot = {||}, ctx = None, adds = {|PStr ''a''|}, removes = {||}\<rparr>"

definition fetched_a :: set_state where
  "fetched_a = \<lparr>snapshot = {|PStr ''a''|}, ctx = Some ''ctx1'', adds = {||}, removes = {||}\<rparr>"

definition list_a :: "pyval fset \<Rightarrow> pyval list" where
  "list_a s = (if s = {||} then [] else [PStr ''a''])"

definition list_ab :: "pyval fset \<Rightarrow> pyval list" where
  "list_ab s = filter (\<lambda>x. x |\<in>| s) [PStr ''b'', PStr ''a'']"

section \<open>What a call does\<close>

text \<open>
  Both mutators in closed form: the checks come first, and a call that raises leaves the
  state as it found it. The built-in \<^verbatim>\<open>set.add\<close> cannot raise here, a string being
  hashable.
\<close>

lemma add_result:
  "add element self =
     (if is_str element then (None, self\<lparr>adds := finsert element (adds self)\<rparr>)
      else (Some (TypeError type_error_msg), self))"
  by (cases element)
     (simp_all add: add_def then_stmt_def check_element_def adds_add_def py_set_add_def)

lemma discard_result:
  "discard element self =
     (if \<not> is_str element then (Some (TypeError type_error_msg), self)
      else if ctx self = None then (Some ContextRequired, self)
      else (None, self\<lparr>removes := finsert element (removes self)\<rparr>))"
  by (cases element)
     (simp_all add: discard_def then_stmt_def check_element_def require_context_def
        removes_add_def py_set_add_def)

lemma run_snapshot: "snapshot (run calls self) = snapshot self"
proof (induction calls arbitrary: self)
  case Nil
  show ?case by simp
next
  case (Cons c cs)
  have "snapshot (snd (exec_call c self)) = snapshot self"
    by (cases c) (simp_all add: add_result discard_result)
  with Cons show ?case by simp
qed

lemma run_only_adds: "list_all is_Add calls \<Longrightarrow> removes (run calls self) = removes self"
proof (induction calls arbitrary: self)
  case Nil
  show ?case by simp
next
  case (Cons c cs)
  from Cons.prems obtain element where c: "c = Add element"
    by (cases c) simp_all
  have "removes (snd (exec_call c self)) = removes self"
    by (simp add: c add_result)
  with Cons show ?case by simp
qed

lemma run_only_discards: "list_all is_Discard calls \<Longrightarrow> adds (run calls self) = adds self"
proof (induction calls arbitrary: self)
  case Nil
  show ?case by simp
next
  case (Cons c cs)
  from Cons.prems obtain element where c: "c = Discard element"
    by (cases c) simp_all
  have "adds (snd (exec_call c self)) = adds self"
    by (simp add: c discard_result)
  with Cons show ?case by simp
qed

lemma to_op_Some:
  "to_op py_list self = Some changes \<Longrightarrow>
     changes ''adds'' = (if adds self = {||} then None else Some (py_list (adds self))) \<and>
     changes ''removes'' = (if removes self = {||} then None else Some (py_list (removes self)))"
  by (auto simp add: to_op_def Let_def split: if_splits)

lemma modified_staged: "modified self = (adds self |\<union>| removes self \<noteq> {||})"
  unfolding modified_def by (metis fcard_0_eq funion_commute neq0_conv)

lemma check_elements_iff: "check_elements xs = (\<forall>element \<in> set xs. is_str element)"
  by (induction xs) simp_all

lemma strs_hashable: "\<forall>element \<in> set xs. is_str element \<Longrightarrow> list_all hashable xs"
proof (induction xs)
  case Nil
  show ?case by simp
next
  case (Cons x xs)
  then show ?case by (cases x) simp_all
qed

lemma check_type_iff:
  "check_type new_value =
     (is_iterable new_value \<and> (\<forall>element \<in> set (py_iter new_value). is_str element))"
  by (simp add: check_type_def check_elements_iff)

lemma coerce_value_accepted:
  "check_type new_value \<Longrightarrow> coerce_value new_value = Inr (fset_of_list (py_iter new_value))"
  using strs_hashable [of "py_iter new_value"]
  by (simp add: check_type_iff coerce_value_def)

section \<open>The delta\<close>

text \<open>
  Claim C1. \<^verbatim>\<open>to_op\<close> returns \<^verbatim>\<open>None\<close> if and only if both staging containers are
  empty. In a delta the key \<^verbatim>\<open>'adds'\<close> is present if and only if \<^verbatim>\<open>_adds\<close> is not
  empty, the key \<^verbatim>\<open>'removes'\<close> if and only if \<^verbatim>\<open>_removes\<close> is not empty, and neither
  key holds an empty list.
\<close>

theorem to_op_none_iff_nothing_staged:
  "(to_op py_list self = None) = (adds self = {||} \<and> removes self = {||}) \<and>
   (\<forall>changes. to_op py_list self = Some changes \<longrightarrow>
      (''adds'' \<in> dom changes) = (adds self \<noteq> {||}) \<and>
      (''removes'' \<in> dom changes) = (removes self \<noteq> {||}) \<and>
      (lists_elements py_list (adds self) \<longrightarrow> changes ''adds'' \<noteq> Some []) \<and>
      (lists_elements py_list (removes self) \<longrightarrow> changes ''removes'' \<noteq> Some []))"
proof -
  have none: "(to_op py_list self = None) = (adds self = {||} \<and> removes self = {||})"
    by (simp add: to_op_def Let_def)
  have some: "(''adds'' \<in> dom changes) = (adds self \<noteq> {||}) \<and>
      (''removes'' \<in> dom changes) = (removes self \<noteq> {||}) \<and>
      (lists_elements py_list (adds self) \<longrightarrow> changes ''adds'' \<noteq> Some []) \<and>
      (lists_elements py_list (removes self) \<longrightarrow> changes ''removes'' \<noteq> Some [])"
    if "to_op py_list self = Some changes" for changes
    using to_op_Some [OF that] by (auto simp add: dom_def lists_elements_def)
  from none some show ?thesis by blast
qed

theorem to_op_none_iff_nothing_staged_witness:
  "to_op list_a staged_a = Some [''adds'' \<mapsto> [PStr ''a'']] \<and>
   ''adds'' \<in> dom [''adds'' \<mapsto> [PStr ''a'']] \<and>
   ''removes'' \<notin> dom [''adds'' \<mapsto> [PStr ''a'']] \<and>
   lists_elements list_a (adds staged_a) \<and>
   [''adds'' \<mapsto> [PStr ''a'']] ''adds'' \<noteq> Some [] \<and>
   to_op list_a new_Set = None"
  using to_op_none_iff_nothing_staged [of list_a staged_a]
    to_op_none_iff_nothing_staged [of list_a new_Set]
  by (simp add: to_op_def staged_a_def list_a_def lists_elements_def new_Set_def post_init_def)

text \<open>
  Claim C5. In a delta the elements of the field \<^verbatim>\<open>adds\<close> are exactly those of
  \<^verbatim>\<open>_adds\<close> and the elements of the field \<^verbatim>\<open>removes\<close> exactly those of \<^verbatim>\<open>_removes\<close>
  (an absent field having none). After calls of \<^verbatim>\<open>add\<close> only, on an instance with
  nothing staged for removal, the delta has no key \<^verbatim>\<open>'removes'\<close>; after calls of
  \<^verbatim>\<open>discard\<close> only, on an instance with nothing staged for addition, it has no key
  \<^verbatim>\<open>'adds'\<close>.
\<close>

theorem delta_fields_are_staging_sets:
  assumes "to_op py_list self = Some changes"
    and "lists_elements py_list (adds self)"
    and "lists_elements py_list (removes self)"
  shows "field_elements changes ''adds'' = adds self \<and>
         field_elements changes ''removes'' = removes self \<and>
         (self = run calls start \<and> removes start = {||} \<and> list_all is_Add calls
            \<longrightarrow> ''removes'' \<notin> dom changes) \<and>
         (self = run calls start \<and> adds start = {||} \<and> list_all is_Discard calls
            \<longrightarrow> ''adds'' \<notin> dom changes)"
proof -
  note fields = to_op_Some [OF assms(1)]
  have "field_elements changes ''adds'' = adds self"
    using fields assms(2) by (simp add: field_elements_def lists_elements_def)
  moreover have "field_elements changes ''removes'' = removes self"
    using fields assms(3) by (simp add: field_elements_def lists_elements_def)
  moreover have "''removes'' \<notin> dom changes"
    if "self = run calls start" "removes start = {||}" "list_all is_Add calls"
    using fields that run_only_adds [of calls start] by (simp add: dom_def)
  moreover have "''adds'' \<notin> dom changes"
    if "self = run calls start" "adds start = {||}" "list_all is_Discard calls"
    using fields that run_only_discards [of calls start] by (simp add: dom_def)
  ultimately show ?thesis by blast
qed

theorem delta_fields_are_staging_sets_witness:
  "to_op list_ab (run [Add (PStr ''a''), Add (PStr ''b'')] new_Set)
     = Some [''adds'' \<mapsto> [PStr ''b'', PStr ''a'']] \<and>
   lists_elements list_ab (adds (run [Add (PStr ''a''), Add (PStr ''b'')] new_Set)) \<and>
   lists_elements list_ab (removes (run [Add (PStr ''a''), Add (PStr ''b'')] new_Set)) \<and>
   field_elements [''adds'' \<mapsto> [PStr ''b'', PStr ''a'']] ''adds'' = {|PStr ''a'', PStr ''b''|} \<and>
   removes new_Set = {||} \<and>
   list_all is_Add [Add (PStr ''a''), Add (PStr ''b'')] \<and>
   ''removes'' \<notin> dom [''adds'' \<mapsto> [PStr ''b'', PStr ''a'']] \<and>
   to_op list_ab (run [Discard (PStr ''a'')] fetched_a) = Some [''removes'' \<mapsto> [PStr ''a'']] \<and>
   ''adds'' \<notin> dom [''removes'' \<mapsto> [PStr ''a'']]"
  using delta_fields_are_staging_sets
    [of list_ab "run [Add (PStr ''a''), Add (PStr ''b'')] new_Set"
        "[''adds'' \<mapsto> [PStr ''b'', PStr ''a'']]" "[Add (PStr ''a''), Add (PStr ''b'')]" new_Set]
    delta_fields_are_staging_sets
    [of list_ab "run [Discard (PStr ''a'')] fetched_a"
        "[''removes'' \<mapsto> [PStr ''a'']]" "[Discard (PStr ''a'')]" fetched_a]
  by (simp add: add_result discard_result to_op_def list_ab_def lists_elements_def
      new_Set_def post_init_def fetched_a_def field_elements_def finsert_commute)

section \<open>Failing calls\<close>

text \<open>
  Claim C2, amended. For every string element, \<^verbatim>\<open>discard\<close> on an instance whose
  context is absent fails with \<^verbatim>\<open>ContextRequired\<close> and leaves the instance, and so
  both staging containers, unchanged: no removal is staged.
\<close>

theorem discard_without_context:
  assumes "is_str element" and "ctx self = None"
  shows "fst (discard element self) = Some ContextRequired \<and>
         snd (discard element self) = self \<and>
         adds (snd (discard element self)) = adds self \<and>
         removes (snd (discard element self)) = removes self"
  using assms by (simp add: discard_result)

theorem discard_without_context_witness:
  "is_str (PStr ''a'') \<and> ctx new_Set = None \<and>
   fst (discard (PStr ''a'') new_Set) = Some ContextRequired \<and>
   snd (discard (PStr ''a'') new_Set) = new_Set \<and>
   removes (snd (discard (PStr ''a'') new_Set)) = {||}"
  using discard_without_context [of "PStr ''a''" new_Set]
  by (simp add: new_Set_def post_init_def)

text \<open>
  Claim C2 as it is written speaks of every element. On a fresh instance, which has no
  context, \<^verbatim>\<open>discard(5)\<close> raises the \<^verbatim>\<open>TypeError\<close> of \<^verbatim>\<open>_check_element\<close>, not
  \<^verbatim>\<open>ContextRequired\<close>.
\<close>

theorem discard_without_context_non_string:
  "ctx new_Set = None \<and>
   fst (discard (PInt 5) new_Set) = Some (TypeError type_error_msg) \<and>
   fst (discard (PInt 5) new_Set) \<noteq> Some ContextRequired"
  by (simp add: discard_result new_Set_def post_init_def)

text \<open>
  Claim C3. For every element that is not a string, \<^verbatim>\<open>add\<close> and \<^verbatim>\<open>discard\<close> both
  fail with the \<^verbatim>\<open>TypeError\<close> of \<^verbatim>\<open>_check_element\<close> and leave the instance, and so
  both staging containers, unchanged.
\<close>

theorem non_string_element_rejected:
  assumes "\<not> is_str element"
  shows "fst (add element self) = Some (TypeError type_error_msg) \<and>
         snd (add element self) = self \<and>
         fst (discard element self) = Some (TypeError type_error_msg) \<and>
         snd (discard element self) = self"
  using assms by (simp add: add_result discard_result)

theorem non_string_element_rejected_witness:
  "\<not> is_str (PInt 5) \<and>
   add (PInt 5) fetched_a = (Some (TypeError type_error_msg), fetched_a) \<and>
   discard (PInt 5) fetched_a = (Some (TypeError type_error_msg), fetched_a)"
  using non_string_element_rejected [of "PInt 5" fetched_a]
  by (simp add: prod_eq_iff)

text \<open>
  Claim C9. In \<^verbatim>\<open>discard\<close> the check of the element comes before the check of the
  context: for an element that is not a string, on an instance without context, the
  call fails with the \<^verbatim>\<open>TypeError\<close>, not with \<^verbatim>\<open>ContextRequired\<close>.
\<close>

theorem discard_type_check_first:
  assumes "\<not> is_str element" and "ctx self = None"
  shows "fst (discard element self) = Some (TypeError type_error_msg) \<and>
         fst (discard element self) \<noteq> Some ContextRequired"
  using assms by (simp add: discard_result)

theorem discard_type_check_first_witness:
  "\<not> is_str PNone \<and> ctx staged_a = None \<and>
   fst (discard PNone staged_a) = Some (TypeError type_error_msg)"
  using discard_type_check_first [of PNone staged_a]
  by (simp add: staged_a_def)

section \<open>Staging and reading\<close>

text \<open>
  Claim C4. \<^verbatim>\<open>__contains__\<close>, \<^verbatim>\<open>__iter__\<close> and \<^verbatim>\<open>__len__\<close> read the snapshot only:
  whatever calls of \<^verbatim>\<open>add\<close> and \<^verbatim>\<open>discard\<close> are made, failing ones included, the
  three give the same results after them as before.
\<close>

theorem reads_ignore_staging:
  "contains element (run calls self) = contains element self \<and>
   iter py_list (run calls self) = iter py_list self \<and>
   len (run calls self) = len self"
  by (simp add: contains_def iter_def len_def value_of_def run_snapshot)

theorem reads_ignore_staging_witness:
  "adds (run [Add (PStr ''b'')] fetched_a) = {|PStr ''b''|} \<and>
   contains (PStr ''b'') (run [Add (PStr ''b'')] fetched_a) = Inr False \<and>
   contains (PStr ''a'') (run [Discard (PStr ''a'')] fetched_a) = Inr True \<and>
   len (run [Add (PStr ''b''), Discard (PStr ''a'')] fetched_a) = 1"
  using reads_ignore_staging [of "PStr ''b''" "[Add (PStr ''b'')]" fetched_a]
    reads_ignore_staging [of "PStr ''a''" "[Discard (PStr ''a'')]" fetched_a]
    reads_ignore_staging [of "PStr ''a''" "[Add (PStr ''b''), Discard (PStr ''a'')]" fetched_a]
  by (simp add: add_result contains_def len_def value_of_def fetched_a_def fcard_finsert_if)

text \<open>
  Claim C6. \<^verbatim>\<open>modified\<close> is true if and only if the union of \<^verbatim>\<open>_adds\<close> and
  \<^verbatim>\<open>_removes\<close> is not empty. It is false after \<^verbatim>\<open>_post_init\<close>, so on a fresh
  instance, and true after every \<^verbatim>\<open>add\<close> and every \<^verbatim>\<open>discard\<close> that did not raise.
\<close>

theorem modified_iff_staged:
  "modified self = (adds self |\<union>| removes self \<noteq> {||}) \<and>
   \<not> modified (post_init base) \<and>
   \<not> modified new_Set \<and>
   (fst (add element self) = None \<longrightarrow> modified (snd (add element self))) \<and>
   (fst (discard element self) = None \<longrightarrow> modified (snd (discard element self)))"
proof -
  have "\<not> modified (post_init base)"
    by (simp add: modified_staged post_init_def)
  moreover have "\<not> modified new_Set"
    by (simp add: modified_staged new_Set_def post_init_def)
  moreover have "modified (snd (add element self))" if "fst (add element self) = None"
    using that by (simp add: modified_staged add_result split: if_splits)
  moreover have "modified (snd (discard element self))" if "fst (discard element self) = None"
    using that by (auto simp add: modified_staged discard_result split: if_splits)
  ultimately show ?thesis using modified_staged [of self] by blast
qed

theorem modified_iff_staged_witness:
  "fst (add (PStr ''b'') fetched_a) = None \<and>
   modified (snd (add (PStr ''b'') fetched_a)) \<and>
   fst (discard (PStr ''a'') fetched_a) = None \<and>
   modified (snd (discard (PStr ''a'') fetched_a)) \<and>
   \<not> modified fetched_a"
  using modified_iff_staged [of fetched_a fetched_a "PStr ''b''"]
    modified_iff_staged [of fetched_a fetched_a "PStr ''a''"]
  by (simp add: add_result discard_result fetched_a_def)

text \<open>
  Claim C8. \<^verbatim>\<open>add\<close> is idempotent: for every string \<^verbatim>\<open>x\<close> and every instance, both
  of two calls \<^verbatim>\<open>add(x)\<close> in a row succeed, and they leave \<^verbatim>\<open>_adds\<close>, and the whole
  instance, as one call does.
\<close>

theorem add_idempotent:
  assumes "is_str x"
  shows "fst (add x self) = None \<and>
         fst (add x (snd (add x self))) = None \<and>
         adds (snd (add x (snd (add x self)))) = adds (snd (add x self)) \<and>
         snd (add x (snd (add x self))) = snd (add x self) \<and>
         then_stmt (add x) (add x) self = add x self"
  using assms by (simp add: add_result then_stmt_def)

theorem add_idempotent_witness:
  "is_str (PStr ''a'') \<and>
   adds (snd (add (PStr ''a'') new_Set)) = {|PStr ''a''|} \<and>
   adds (snd (add (PStr ''a'') (snd (add (PStr ''a'') new_Set)))) = {|PStr ''a''|}"
  using add_idempotent [of "PStr ''a''" new_Set]
  by (simp add: add_result new_Set_def post_init_def)

section \<open>Validation and coercion of a snapshot\<close>

text \<open>
  Claim C7. \<^verbatim>\<open>_check_type\<close> accepts a value if and only if the value is iterable
  and each of its elements is a string; \<^verbatim>\<open>_coerce_value\<close> turns an accepted value
  into the frozenset of its elements.
\<close>

theorem check_type_iff_iterable_of_strings:
  "check_type new_value =
     (is_iterable new_value \<and> (\<forall>element \<in> set (py_iter new_value). is_str element)) \<and>
   (check_type new_value \<longrightarrow>
      coerce_value new_value = Inr (fset_of_list (py_iter new_value)))"
  using check_type_iff [of new_value] coerce_value_accepted [of new_value]
  by blast

theorem check_type_iff_iterable_of_strings_witness:
  "check_type (PList [PStr ''a'', PStr ''b'']) \<and>
   coerce_value (PList [PStr ''a'', PStr ''b'']) = Inr {|PStr ''a'', PStr ''b''|} \<and>
   \<not> check_type (PList [PStr ''a'', PInt 5]) \<and>
   \<not> check_type (PInt 5)"
  using check_type_iff_iterable_of_strings [of "PList [PStr ''a'', PStr ''b'']"]
    check_type_iff_iterable_of_strings [of "PList [PStr ''a'', PInt 5]"]
    check_type_iff_iterable_of_strings [of "PInt 5"]
  by simp

text \<open>
  Claim C10. A bare string passes \<^verbatim>\<open>_check_type\<close>, and \<^verbatim>\<open>_coerce_value\<close> makes of it
  the set of its one-character strings: \<^verbatim>\<open>'abc'\<close> becomes \<^verbatim>\<open>{'a', 'b', 'c'}\<close>, not
  \<^verbatim>\<open>{'abc'}\<close>.
\<close>

theorem bare_string_is_accepted:
  "check_type (PStr w) \<and>
   coerce_value (PStr w) = Inr (fset_of_list (map (\<lambda>c. PStr [c]) w))"
  using check_type_iff [of "PStr w"] coerce_value_accepted [of "PStr w"]
  by auto

theorem bare_string_is_accepted_witness:
  "check_type (PStr ''abc'') \<and>
   coerce_value (PStr ''abc'') = Inr {|PStr ''a'', PStr ''b'', PStr ''c''|} \<and>
   coerce_value (PStr ''abc'') \<noteq> Inr {|PStr ''abc''|}"
  using bare_string_is_accepted [of "''abc''"]
  by auto

end
